theory Spec2Isabelle
  imports Complex_Main "HOL-Library.Char_ord" "HOL-Library.List_Lexorder" "HOL-Library.AList"
begin

section \<open>Python values used by the price cache\<close>

text \<open>
  Strings are byte strings (ASCII); Python compares them code point by code point, which
  on ASCII is the lexicographic order of \<open>List_Lexorder\<close> over \<open>Char_ord\<close>.
  Python floats are modelled by the reals: no rounding error, no NaN and no infinity.
\<close>

definition is_digit :: "char \<Rightarrow> bool" where
  "is_digit c = (CHR ''0'' \<le> c \<and> c \<le> CHR ''9'')"

definition digit_val :: "char \<Rightarrow> int" where
  "digit_val c = int (of_char c) - 48"

definition digit_char :: "int \<Rightarrow> char" where
  "digit_char n = char_of (nat (48 + n mod 10))"

text \<open>\<open>str.upper()\<close> on ASCII.\<close>

definition upper_char :: "char \<Rightarrow> char" where
  "upper_char c = (if CHR ''a'' \<le> c \<and> c \<le> CHR ''z'' then char_of (of_char c - (32::nat)) else c)"

definition upper :: "string \<Rightarrow> string" where
  "upper s = map upper_char s"

text \<open>\<open>int(x)\<close> of a float truncates toward zero.\<close>

definition py_int :: "real \<Rightarrow> int" where
  "py_int x = (if x < 0 then \<lceil>x\<rceil> else \<lfloor>x\<rfloor>)"

text \<open>\<open>round(x, 4)\<close>: to the nearest multiple of 1/10000, a tie going to the even one.\<close>

definition py_round4 :: "real \<Rightarrow> real" where
  "py_round4 x =
     (let y = x * 10000; f = \<lfloor>y\<rfloor>; r = y - of_int f
      in of_int (if r < 1 / 2 then f
                 else if 1 / 2 < r then f + 1
                 else if even f then f else f + 1) / 10000)"

datatype py_exception =
    APIError string int
  | StoreError string
  | ValueError string
  | TypeError string
  | AttributeError string


section \<open>The standard library's datetime, as far as the cache uses it\<close>

record datetime =
  year :: int
  month :: int
  day :: int
  hour :: int
  minute :: int
  second :: int
  microsecond :: int

definition is_leap :: "int \<Rightarrow> bool" where
  "is_leap y = (y mod 4 = 0 \<and> (y mod 100 \<noteq> 0 \<or> y mod 400 = 0))"

definition days_in_month :: "int \<Rightarrow> int \<Rightarrow> int" where
  "days_in_month y m =
     (if m = 2 then (if is_leap y then 29 else 28)
      else if m = 4 \<or> m = 6 \<or> m = 9 \<or> m = 11 then 30 else 31)"

definition days_before_year :: "int \<Rightarrow> int" where
  "days_before_year y = (let p = y - 1 in p * 365 + p div 4 - p div 100 + p div 400)"

definition days_before_month :: "int \<Rightarrow> int \<Rightarrow> int" where
  "days_before_month y m =
     [0, 0, 31, 59, 90, 120, 151, 181, 212, 243, 273, 304, 334] ! nat m
       + (if 2 < m \<and> is_leap y then 1 else 0)"

definition toordinal :: "datetime \<Rightarrow> int" where
  "toordinal d = days_before_year (year d) + days_before_month (year d) (month d) + day d"

text \<open>
  \<open>(a - b).days\<close>: the difference is normalised so that the seconds and microseconds are
  not negative, which makes \<open>days\<close> the floor of the difference in days.
\<close>

definition day_seconds :: "datetime \<Rightarrow> int" where
  "day_seconds d = second d + minute d * 60 + hour d * 3600"

definition timedelta_days :: "datetime \<Rightarrow> datetime \<Rightarrow> int" where
  "timedelta_days a b =
     ((toordinal a - toordinal b) * 86400000000
        + (day_seconds a - day_seconds b) * 1000000
        + (microsecond a - microsecond b)) div 86400000000"

definition valid_time :: "datetime \<Rightarrow> bool" where
  "valid_time d = (0 \<le> hour d \<and> hour d < 24 \<and> 0 \<le> minute d \<and> minute d < 60
                   \<and> 0 \<le> second d \<and> second d < 60
                   \<and> 0 \<le> microsecond d \<and> microsecond d < 1000000)"

text \<open>
  \<open>datetime.strptime(s, "%Y-%m-%d")\<close>: four digits, a dash, a month token, a dash and a
  day token, nothing after; the month is \<open>1[0-2]|0[1-9]|[1-9]\<close> and the day is
  \<open>3[01]|[12]\d|0[1-9]|[1-9]| [1-9]\<close>. The date must exist (year 1 at least, the day
  within its month). Every failure is a ValueError, here \<open>None\<close>.
\<close>

definition month_token :: "string \<Rightarrow> int option" where
  "month_token t =
     (case t of
        [a] \<Rightarrow> if is_digit a \<and> a \<noteq> CHR ''0'' then Some (digit_val a) else None
      | [a, b] \<Rightarrow>
          if a = CHR ''1'' \<and> CHR ''0'' \<le> b \<and> b \<le> CHR ''2'' then Some (10 + digit_val b)
          else if a = CHR ''0'' \<and> is_digit b \<and> b \<noteq> CHR ''0'' then Some (digit_val b)
          else None
      | _ \<Rightarrow> None)"

definition day_token :: "string \<Rightarrow> int option" where
  "day_token t =
     (case t of
        [a] \<Rightarrow> if is_digit a \<and> a \<noteq> CHR ''0'' then Some (digit_val a) else None
      | [a, b] \<Rightarrow>
          if a = CHR ''3'' \<and> (b = CHR ''0'' \<or> b = CHR ''1'') then Some (30 + digit_val b)
          else if (a = CHR ''1'' \<or> a = CHR ''2'') \<and> is_digit b
            then Some (10 * digit_val a + digit_val b)
          else if (a = CHR ''0'' \<or> a = CHR '' '') \<and> is_digit b \<and> b \<noteq> CHR ''0''
            then Some (digit_val b)
          else None
      | _ \<Rightarrow> None)"

definition make_date :: "int \<Rightarrow> int \<Rightarrow> int \<Rightarrow> datetime option" where
  "make_date y m d =
     (if 1 \<le> y \<and> y \<le> 9999 \<and> 1 \<le> m \<and> m \<le> 12 \<and> 1 \<le> d \<and> d \<le> days_in_month y m
      then Some \<lparr>year = y, month = m, day = d, hour = 0, minute = 0, second = 0,
                 microsecond = 0\<rparr>
      else None)"

definition strptime :: "string \<Rightarrow> datetime option" where
  "strptime s =
     (let ys = take 4 s; rest = drop 5 s;
          mt = takeWhile (\<lambda>c. c \<noteq> CHR ''-'') rest;
          dt = drop (length mt + 1) rest
      in if length ys = 4 \<and> list_all is_digit ys \<and> take 1 (drop 4 s) = ''-''
            \<and> take 1 (drop (length mt) rest) = ''-''
         then (case month_token mt of
                 None \<Rightarrow> None
               | Some m \<Rightarrow>
                   (case day_token dt of
                      None \<Rightarrow> None
                    | Some d \<Rightarrow>
                        make_date (1000 * digit_val (ys ! 0) + 100 * digit_val (ys ! 1)
                                     + 10 * digit_val (ys ! 2) + digit_val (ys ! 3)) m d))
         else None)"

text \<open>\<open>d.strftime("%Y-%m-%d")\<close>, the year padded to four digits.\<close>

definition strftime :: "datetime \<Rightarrow> string" where
  "strftime d =
     [digit_char (year d div 1000), digit_char (year d div 100), digit_char (year d div 10),
      digit_char (year d), CHR ''-'', digit_char (month d div 10), digit_char (month d),
      CHR ''-'', digit_char (day d div 10), digit_char (day d)]"

section \<open>The upstream provider and utils/transform.py\<close>

text \<open>
  A row of the provider's history frame. \<open>idx\<close> is the row's timestamp as
  \<open>strftime("%Y-%m-%d")\<close> prints it; a column the frame does not have is \<open>None\<close>, which
  \<open>row.get\<close> replaces by its default.
\<close>

record raw_row =
  idx :: string
  Open :: "real option"
  High :: "real option"
  Low :: "real option"
  Close :: "real option"
  Adj_Close :: "real option"
  Volume :: "real option"
  Dividends :: "real option"
  Stock_Splits :: "real option"

record price_data =
  "open" :: real
  high :: real
  low :: real
  close :: real
  volume :: int
  adjOpen :: real
  adjHigh :: real
  adjLow :: real
  adjClose :: real
  adjVolume :: int
  divCash :: real
  splitFactor :: real

record price_record = price_data +
  date_time :: string

definition row_get :: "real option \<Rightarrow> real \<Rightarrow> real" where
  "row_get v dflt = (case v of None \<Rightarrow> dflt | Some x \<Rightarrow> x)"

definition transform_row :: "raw_row \<Rightarrow> price_record" where
  "transform_row row =
     (let date_str = idx row @ ''T00:00:00.000Z'';
          close_raw = row_get (Close row) 0;
          adj_close = row_get (Adj_Close row) close_raw;
          adj_ratio = (if close_raw \<noteq> 0 then adj_close / close_raw else 1);
          open_price = row_get (Open row) 0;
          high_price = row_get (High row) 0;
          low_price = row_get (Low row) 0;
          close_price = row_get (Close row) 0;
          vol = py_int (row_get (Volume row) 0);
          adj_open = py_round4 (open_price * adj_ratio);
          adj_high = py_round4 (high_price * adj_ratio);
          adj_low = py_round4 (low_price * adj_ratio);
          split = py_round4 (row_get (Stock_Splits row) 0)
      in \<lparr>open = py_round4 open_price,
          high = py_round4 high_price,
          low = py_round4 low_price,
          close = py_round4 close_price,
          volume = vol,
          adjOpen = adj_open,
          adjHigh = adj_high,
          adjLow = adj_low,
          adjClose = py_round4 adj_close,
          adjVolume = vol,
          divCash = py_round4 (row_get (Dividends row) 0),
          splitFactor = (if split \<noteq> 0 then split else 1),
          date_time = date_str\<rparr>)"

definition transform_history_to_tiingo :: "raw_row list \<Rightarrow> string \<Rightarrow> price_record list" where
  "transform_history_to_tiingo df ticker = (if df = [] then [] else map transform_row df)"

section \<open>What a call reads from outside the program\<close>

text \<open>
  The wall clock (\<open>datetime.now()\<close> and \<open>time.time()\<close>), the provider's answer to the
  k-th attempt of a fetch (an error message or a frame) and the faults of the store's
  transport, per operation (\<open>OpBatchWrite k\<close> is the k-th flush of a batch writer).
\<close>

datatype store_op = OpQuery | OpPutItem | OpBatchWrite nat

record world =
  now :: datetime
  time_time :: real
  history :: "nat \<Rightarrow> string \<Rightarrow> string \<Rightarrow> string \<Rightarrow> string + raw_row list"
  store_fault :: "store_op \<Rightarrow> string option"

section \<open>repositories/stocks\_cache.py\<close>

definition TTL_HISTORICAL :: int where
  "TTL_HISTORICAL = 90 * 24 * 60 * 60"

definition TTL_CURRENT :: int where
  "TTL_CURRENT = 1 * 24 * 60 * 60"

definition calculate_ttl :: "world \<Rightarrow> string \<Rightarrow> int" where
  "calculate_ttl w date_str =
     (case strptime date_str of
        None \<Rightarrow> py_int (time_time w) + TTL_CURRENT
      | Some data_date \<Rightarrow>
          (let age_days = timedelta_days (now w) data_date;
               ttl_seconds = (if 7 < age_days then TTL_HISTORICAL else TTL_CURRENT)
           in py_int (time_time w) + ttl_seconds))"

text \<open>
  The table of the store, keyed by \<open>(ticker, date)\<close>: the hash key and the range key of the
  table's schema. The client library and the database are not part of the repository;
  they are modelled by their contract: \<open>put_item\<close> replaces the item that has the same
  key, a query returns the items of one ticker whose date lies between the bounds, in the
  order of the range key, and a batch writer sends its buffer whenever it holds 25 items
  and once more at the end; the database refuses a batch that holds a key twice.
\<close>

record stock_item =
  ticker :: string
  date :: string
  priceData :: price_data
  metadata :: "string option"

record cache_item = stock_item +
  ttl :: int
  fetchedAt :: int

definition item_key :: "cache_item \<Rightarrow> string \<times> string" where
  "item_key it = (ticker it, date it)"

definition table_put_item :: "cache_item \<Rightarrow> cache_item list \<Rightarrow> cache_item list" where
  "table_put_item it tbl = filter (\<lambda>x. item_key x \<noteq> item_key it) tbl @ [it]"

definition table_query :: "cache_item list \<Rightarrow> string \<Rightarrow> string \<Rightarrow> string \<Rightarrow> cache_item list" where
  "table_query tbl tk lo hi =
     sort_key date (filter (\<lambda>x. ticker x = tk \<and> lo \<le> date x \<and> date x \<le> hi) tbl)"

definition batch_flush ::
  "world \<Rightarrow> nat \<Rightarrow> cache_item list \<Rightarrow> cache_item list \<Rightarrow> py_exception + cache_item list" where
  "batch_flush w k buf tbl =
     (case store_fault w (OpBatchWrite k) of
        Some m \<Rightarrow> Inl (StoreError m)
      | None \<Rightarrow>
          if \<not> distinct (map item_key buf)
          then Inl (StoreError ''Provided list of item keys contains duplicates'')
          else Inr (foldl (\<lambda>t it. table_put_item it t) tbl buf))"

fun batch_writer ::
  "world \<Rightarrow> nat \<Rightarrow> cache_item list \<Rightarrow> cache_item list \<Rightarrow> cache_item list
     \<Rightarrow> (py_exception + unit) \<times> cache_item list" where
  "batch_writer w k buf [] tbl =
     (if buf = [] then (Inr (), tbl)
      else (case batch_flush w k buf tbl of
              Inl e \<Rightarrow> (Inl e, tbl)
            | Inr tbl' \<Rightarrow> (Inr (), tbl')))"
| "batch_writer w k buf (it # its) tbl =
     (let buf' = buf @ [it]
      in if 25 \<le> length buf'
         then (case batch_flush w k buf' tbl of
                 Inl e \<Rightarrow> (Inl e, tbl)
               | Inr tbl' \<Rightarrow> batch_writer w (Suc k) [] its tbl')
         else batch_writer w k buf' its tbl)"

definition make_cache_item :: "world \<Rightarrow> stock_item \<Rightarrow> cache_item" where
  "make_cache_item w item =
     \<lparr>ticker = upper (ticker item),
      date = date item,
      priceData = priceData item,
      metadata = metadata item,
      ttl = calculate_ttl w (date item),
      fetchedAt = py_int (time_time w * 1000)\<rparr>"

definition put_stock ::
  "world \<Rightarrow> stock_item \<Rightarrow> cache_item list \<Rightarrow> (py_exception + unit) \<times> cache_item list" where
  "put_stock w item tbl =
     (let cache_item = make_cache_item w item
      in case store_fault w OpPutItem of
           Some m \<Rightarrow> (Inl (StoreError m), tbl)
         | None \<Rightarrow> (Inr (), table_put_item cache_item tbl))"

definition batch_put_stocks ::
  "world \<Rightarrow> stock_item list \<Rightarrow> cache_item list \<Rightarrow> (py_exception + unit) \<times> cache_item list" where
  "batch_put_stocks w items tbl =
     (if items = [] then (Inr (), tbl)
      else (let cache_items = map (make_cache_item w) items
            in batch_writer w 0 [] cache_items tbl))"

definition query_stocks_by_date_range ::
  "world \<Rightarrow> cache_item list \<Rightarrow> string \<Rightarrow> string \<Rightarrow> string \<Rightarrow> py_exception + cache_item list" where
  "query_stocks_by_date_range w tbl tk start_date end_date =
     (case store_fault w OpQuery of
        Some m \<Rightarrow> Inl (StoreError m)
      | None \<Rightarrow> Inr (table_query tbl (upper tk) start_date end_date))"

section \<open>services/yfinance\_service.py\<close>

definition MAX_RETRIES :: nat where
  "MAX_RETRIES = 3"

text \<open>
  \<open>retry_with_backoff\<close>: \<open>func k\<close> is the k-th attempt; a client error (4xx but 429) is
  raised at once, any other error is kept and the attempt repeated, the last error raised
  when the attempts are used up. The sleep between attempts has no model here.
\<close>

fun retry_with_backoff ::
  "(nat \<Rightarrow> py_exception + 'a) \<Rightarrow> nat \<Rightarrow> nat \<Rightarrow> py_exception option \<Rightarrow> py_exception + 'a" where
  "retry_with_backoff func attempt 0 last_error =
     Inl (case last_error of Some e \<Rightarrow> e | None \<Rightarrow> APIError ''Unknown error'' 500)"
| "retry_with_backoff func attempt (Suc left) last_error =
     (case func attempt of
        Inr v \<Rightarrow> Inr v
      | Inl (APIError m c) \<Rightarrow>
          if c \<noteq> 0 \<and> 400 \<le> c \<and> c < 500 \<and> c \<noteq> 429 then Inl (APIError m c)
          else retry_with_backoff func (Suc attempt) left (Some (APIError m c))
      | Inl e \<Rightarrow> retry_with_backoff func (Suc attempt) left (Some e))"

definition fetch_attempt ::
  "world \<Rightarrow> string \<Rightarrow> string \<Rightarrow> string \<Rightarrow> nat \<Rightarrow> py_exception + raw_row list" where
  "fetch_attempt w tk start_date end_date k =
     (case history w k tk start_date end_date of
        Inl e \<Rightarrow> Inl (APIError (''Failed to fetch stock prices: '' @ e) 500)
      | Inr hist \<Rightarrow>
          if hist = []
          then Inl (APIError (''Ticker '' @ [CHR 0x27] @ tk @ [CHR 0x27]
                                @ '' not found or no data available'') 404)
          else Inr hist)"

definition fetch_stock_prices ::
  "world \<Rightarrow> string \<Rightarrow> string \<Rightarrow> string \<Rightarrow> py_exception + raw_row list" where
  "fetch_stock_prices w tk start_date end_date =
     retry_with_backoff (fetch_attempt w tk start_date end_date) 0 (MAX_RETRIES + 1) None"

section \<open>handlers/stocks.py\<close>

text \<open>
  The state a request changes: the table of the store, and the tickers for which the
  upstream fetch was called, in the order of the calls.
\<close>

record system =
  table :: "cache_item list"
  fetch_log :: "string list"

record prices_result =
  data :: "price_record list"
  cached :: bool
  cacheHitRate :: real

definition expected_trading_days :: "int \<Rightarrow> int" where
  "expected_trading_days calendar_days = max 1 (py_int (real_of_int (calendar_days * 5) / 7))"

definition cache_hit_rate :: "nat \<Rightarrow> int \<Rightarrow> real" where
  "cache_hit_rate n expected = (if 0 < expected then real n / real_of_int expected else 0)"

definition cached_record :: "cache_item \<Rightarrow> price_record" where
  "cached_record item =
     (let price_data = priceData item
      in \<lparr>open = open price_data, high = high price_data, low = low price_data,
          close = close price_data, volume = volume price_data,
          adjOpen = adjOpen price_data, adjHigh = adjHigh price_data,
          adjLow = adjLow price_data, adjClose = adjClose price_data,
          adjVolume = adjVolume price_data, divCash = divCash price_data,
          splitFactor = splitFactor price_data,
          date_time = date item @ ''T00:00:00.000Z''\<rparr>)"

definition cache_items_of :: "string \<Rightarrow> price_record list \<Rightarrow> stock_item list" where
  "cache_items_of tk recs =
     map (\<lambda>record.
            \<lparr>ticker = tk,
             date = take 10 (date_time record),
             priceData =
               \<lparr>open = open record, high = high record, low = low record,
                close = close record, volume = volume record,
                adjOpen = adjOpen record, adjHigh = adjHigh record,
                adjLow = adjLow record, adjClose = adjClose record,
                adjVolume = adjVolume record, divCash = divCash record,
                splitFactor = splitFactor record\<rparr>,
             metadata = None\<rparr>) recs"

definition upstream_fetch ::
  "world \<Rightarrow> system \<Rightarrow> string \<Rightarrow> string \<Rightarrow> string \<Rightarrow> (py_exception + raw_row list) \<times> system" where
  "upstream_fetch w st tk start_date end_date =
     (fetch_stock_prices w tk start_date end_date, st\<lparr>fetch_log := fetch_log st @ [tk]\<rparr>)"

text \<open>The body of the handler's \<open>try\<close>: the cache check, then the fetch and the write-back.\<close>

definition cache_check ::
  "world \<Rightarrow> system \<Rightarrow> string \<Rightarrow> string \<Rightarrow> string \<Rightarrow> (py_exception + prices_result) \<times> system" where
  "cache_check w st tk start_date effective_end_date =
     (case query_stocks_by_date_range w (table st) tk start_date effective_end_date of
        Inl e \<Rightarrow> (Inl e, st)
      | Inr cached_data \<Rightarrow>
          (case strptime start_date of
             None \<Rightarrow> (Inl (ValueError ''time data does not match format''), st)
           | Some start \<Rightarrow>
               (case strptime effective_end_date of
                  None \<Rightarrow> (Inl (ValueError ''time data does not match format''), st)
                | Some end \<Rightarrow>
                    (let calendar_days = timedelta_days end start + 1;
                         expected = expected_trading_days calendar_days;
                         rate = cache_hit_rate (length cached_data) expected
                     in if 0.8 < rate \<and> cached_data \<noteq> []
                        then (Inr \<lparr>data = map cached_record (sort_key date cached_data),
                                   cached = True, cacheHitRate = rate\<rparr>, st)
                        else (case upstream_fetch w st tk start_date effective_end_date of
                                (Inl e, st1) \<Rightarrow> (Inl e, st1)
                              | (Inr df, st1) \<Rightarrow>
                                  (let recs = transform_history_to_tiingo df tk;
                                       st2 = (if recs \<noteq> []
                                              then st1\<lparr>table :=
                                                snd (batch_put_stocks w (cache_items_of tk recs)
                                                       (table st1))\<rparr>
                                              else st1)
                                   in (Inr \<lparr>data = recs, cached = False,
                                             cacheHitRate = rate\<rparr>, st2)))))))"

text \<open>\<open>end_date or datetime.now().strftime("%Y-%m-%d")\<close>: an empty end date counts as none.\<close>

definition effective_end :: "world \<Rightarrow> string option \<Rightarrow> string" where
  "effective_end w end_date =
     (case end_date of
        None \<Rightarrow> strftime (now w)
      | Some e \<Rightarrow> if e \<noteq> [] then e else strftime (now w))"

definition handle_prices_request ::
  "world \<Rightarrow> system \<Rightarrow> string \<Rightarrow> string \<Rightarrow> string option
     \<Rightarrow> (py_exception + prices_result) \<times> system" where
  "handle_prices_request w st tk start_date end_date =
     (let effective_end_date = effective_end w end_date
      in case cache_check w st tk start_date effective_end_date of
           (Inr r, st1) \<Rightarrow> (Inr r, st1)
         | (Inl (APIError m c), st1) \<Rightarrow> (Inl (APIError m c), st1)
         | (Inl e, st1) \<Rightarrow>
             (case upstream_fetch w st1 tk start_date effective_end_date of
                (Inl e', st2) \<Rightarrow> (Inl e', st2)
              | (Inr df, st2) \<Rightarrow>
                  (Inr \<lparr>data = transform_history_to_tiingo df tk, cached = False,
                        cacheHitRate = 0\<rparr>, st2)))"

section \<open>utils/validation.py\<close>





section \<open>handlers/batch.py\<close>
















section \<open>Vocabulary of the statements\<close>

text \<open>An error of the upstream service: an APIError that carries a message.\<close>

definition is_api_error :: "py_exception \<Rightarrow> bool" where
  "is_api_error e = (case e of APIError m c \<Rightarrow> m \<noteq> [] | _ \<Rightarrow> False)"

text \<open>The records a table holds under a key, and a table that holds no key twice.\<close>

definition records_with_key :: "string \<times> string \<Rightarrow> cache_item list \<Rightarrow> cache_item list" where
  "records_with_key k tbl = filter (\<lambda>x. item_key x = k) tbl"

definition table_ok :: "cache_item list \<Rightarrow> bool" where
  "table_ok tbl = distinct (map item_key tbl)"

definition table_keys :: "cache_item list \<Rightarrow> (string \<times> string) set" where
  "table_keys tbl = set (map item_key tbl)"









section \<open>Sample inputs\<close>

definition example_row :: "real \<Rightarrow> real \<Rightarrow> real \<Rightarrow> real option \<Rightarrow> raw_row" where
  "example_row opn cls adj spl =
     \<lparr>idx = ''2024-01-15'', Open = Some opn, High = Some (opn + 5), Low = Some (opn - 1),
      Close = Some cls, Adj_Close = Some adj, Volume = Some 1000000, Dividends = Some 0,
      Stock_Splits = spl\<rparr>"

text \<open>
  A clock at 2024-01-22 10:30:15, a provider that knows every ticker but MSFT and answers
  with one row, and a store whose transport fails as \<open>faults\<close> says.
\<close>

definition example_world :: "(store_op \<Rightarrow> string option) \<Rightarrow> world" where
  "example_world faults =
     \<lparr>now = \<lparr>year = 2024, month = 1, day = 22, hour = 10, minute = 30, second = 15,
              microsecond = 250\<rparr>,
      time_time = 1705919415.25,
      history = (\<lambda>k tk s e. if tk = ''MSFT'' then Inr []
                            else Inr [example_row 150 154 153 None]),
      store_fault = faults\<rparr>"

definition example_item :: "string \<Rightarrow> string \<Rightarrow> real \<Rightarrow> cache_item" where
  "example_item tk d c =
     \<lparr>ticker = tk, date = d,
      priceData = \<lparr>open = c - 1, high = c + 2, low = c - 3, close = c, volume = 1000,
                   adjOpen = c - 1, adjHigh = c + 2, adjLow = c - 3, adjClose = c,
                   adjVolume = 1000, divCash = 0, splitFactor = 1\<rparr>,
      metadata = None, ttl = 1713695415, fetchedAt = 1705919415250\<rparr>"

definition example_table :: "cache_item list" where
  "example_table =
     [example_item ''AAPL'' ''2024-01-17'' 152, example_item ''AAPL'' ''2024-01-15'' 150,
      example_item ''AAPL'' ''2024-01-16'' 151, example_item ''GOOGL'' ''2024-01-16'' 140,
      example_item ''AAPL'' ''2024-01-19'' 154, example_item ''AAPL'' ''2024-01-18'' 153,
      example_item ''AAPL'' ''2024-01-12'' 149]"

text \<open>An item as the handler hands it to the repository, and the same clock a day later.\<close>

definition example_stock_item :: "string \<Rightarrow> string \<Rightarrow> stock_item" where
  "example_stock_item tk d =
     \<lparr>ticker = tk, date = d, priceData = priceData (example_item tk d 150), metadata = None\<rparr>"

definition example_world_later :: "(store_op \<Rightarrow> string option) \<Rightarrow> world" where
  "example_world_later faults =
     (example_world faults)
       \<lparr>now := \<lparr>year = 2024, month = 1, day = 23, hour = 10, minute = 30, second = 15,
                 microsecond = 250\<rparr>,
        time_time := 1706005815.25\<rparr>"


section \<open>Arithmetic of the coverage estimate and of dates\<close>

lemma py_int_five_sevenths:
  assumes "0 \<le> n"
  shows "py_int (real_of_int (n * 5) / 7) = n * 5 div 7"
proof -
  have "\<lfloor>real_of_int (n * 5) / real_of_int 7\<rfloor> = n * 5 div 7"
    by (rule floor_divide_of_int_eq)
  moreover have "\<not> real_of_int (n * 5) / 7 < 0" using assms by simp
  ultimately show ?thesis unfolding py_int_def by simp
qed

lemma py_int_mono:
  assumes "x \<le> y"
  shows "py_int x \<le> py_int y"
proof (cases "x < 0")
  case True
  show ?thesis
  proof (cases "y < 0")
    case True
    with \<open>x < 0\<close> assms show ?thesis by (simp add: py_int_def ceiling_mono)
  next
    case False
    have "\<lceil>x\<rceil> \<le> 0" using \<open>x < 0\<close> by (simp add: ceiling_le_iff)
    moreover have "0 \<le> \<lfloor>y\<rfloor>" using False by simp
    moreover have "py_int x = \<lceil>x\<rceil>" "py_int y = \<lfloor>y\<rfloor>"
      using \<open>x < 0\<close> False by (simp_all add: py_int_def)
    ultimately show ?thesis by linarith
  qed
next
  case False
  then have "\<not> y < 0" using assms by simp
  with False assms show ?thesis by (simp add: py_int_def floor_mono)
qed

lemma expected_trading_days_mono:
  "a \<le> b \<Longrightarrow> expected_trading_days a \<le> expected_trading_days b"
  unfolding expected_trading_days_def
  by (intro max.mono order_refl py_int_mono divide_right_mono) simp_all

lemma expected_trading_days_floor:
  "1 \<le> d \<Longrightarrow> expected_trading_days d = max 1 (d * 5 div 7)"
  unfolding expected_trading_days_def using py_int_five_sevenths [of d] by simp

lemma timedelta_days_midnight:
  assumes "valid_time a" "day_seconds b = 0" "microsecond b = 0"
  shows "timedelta_days a b = toordinal a - toordinal b"
proof -
  define r where "r = day_seconds a * 1000000 + microsecond a"
  have r: "0 \<le> r" "r < 86400000000"
    using assms(1) by (auto simp: valid_time_def day_seconds_def r_def)
  have "timedelta_days a b = ((toordinal a - toordinal b) * 86400000000 + r) div 86400000000"
    using assms(2,3) unfolding timedelta_days_def r_def by (simp add: algebra_simps)
  also have "\<dots> = toordinal a - toordinal b" using r by simp
  finally show ?thesis .
qed

lemma strptime_midnight:
  "strptime s = Some d \<Longrightarrow> day_seconds d = 0 \<and> microsecond d = 0 \<and> valid_time d"
  by (auto simp: strptime_def make_date_def day_seconds_def valid_time_def Let_def split: option.splits if_splits)


section \<open>The coverage estimate widens with the range\<close>

text \<open>
  C9. The expected number of trading days of a range is
  \<open>max 1 (days * 5 div 7)\<close> with \<open>days = (end - start) + 1\<close>, and it never decreases when
  the range widens: for two parsed ranges of which the second starts no later and ends no
  earlier than the first, the estimate of the second is at least that of the first.
\<close>

theorem expected_trading_days_widening:
  assumes "strptime start_date = Some start" and "strptime end_date = Some end"
      and "strptime start_date' = Some start'" and "strptime end_date' = Some end'"
      and "toordinal start' \<le> toordinal start" and "toordinal end \<le> toordinal end'"
  shows "expected_trading_days (timedelta_days end start + 1)
           \<le> expected_trading_days (timedelta_days end' start' + 1)
         \<and> (toordinal start \<le> toordinal end \<longrightarrow>
              expected_trading_days (timedelta_days end start + 1)
                = max 1 ((toordinal end - toordinal start + 1) * 5 div 7))"
proof -
  have d: "timedelta_days end start = toordinal end - toordinal start"
    using assms(1,2) strptime_midnight timedelta_days_midnight by blast
  have d': "timedelta_days end' start' = toordinal end' - toordinal start'"
    using assms(3,4) strptime_midnight timedelta_days_midnight by blast
  have "expected_trading_days (timedelta_days end start + 1)
           \<le> expected_trading_days (timedelta_days end' start' + 1)"
    unfolding d d' using assms(5,6) by (intro expected_trading_days_mono) linarith
  moreover have "expected_trading_days (timedelta_days end start + 1)
             = max 1 ((toordinal end - toordinal start + 1) * 5 div 7)"
    if "toordinal start \<le> toordinal end"
    unfolding d using that by (intro expected_trading_days_floor) linarith
  ultimately show ?thesis by blast
qed

theorem expected_trading_days_widening_witness:
  "expected_trading_days
     (timedelta_days \<lparr>year = 2024, month = 1, day = 19, hour = 0, minute = 0, second = 0,
                       microsecond = 0\<rparr>
        \<lparr>year = 2024, month = 1, day = 15, hour = 0, minute = 0, second = 0,
          microsecond = 0\<rparr> + 1) = 3
   \<and> expected_trading_days
     (timedelta_days \<lparr>year = 2024, month = 1, day = 25, hour = 0, minute = 0, second = 0,
                       microsecond = 0\<rparr>
        \<lparr>year = 2024, month = 1, day = 15, hour = 0, minute = 0, second = 0,
          microsecond = 0\<rparr> + 1) = 7
   \<and> (3::int) \<le> 7"
proof -
  let ?d = "\<lambda>n. \<lparr>year = 2024, month = 1, day = n, hour = 0, minute = 0, second = 0,
                   microsecond = 0\<rparr>"
  have p15: "strptime ''2024-01-15'' = Some (?d 15)" by code_simp
  have p19: "strptime ''2024-01-19'' = Some (?d 19)" by code_simp
  have p25: "strptime ''2024-01-25'' = Some (?d 25)" by code_simp
  have o1: "toordinal (?d 15) \<le> toordinal (?d 15)" by simp
  have o2: "toordinal (?d 19) \<le> toordinal (?d 25)" by code_simp
  have o3: "toordinal (?d 15) \<le> toordinal (?d 19)" by code_simp
  have o4: "toordinal (?d 15) \<le> toordinal (?d 25)" by code_simp
  have v1: "max 1 ((toordinal (?d 19) - toordinal (?d 15) + 1) * 5 div 7) = (3::int)"
    by code_simp
  have v2: "max 1 ((toordinal (?d 25) - toordinal (?d 15) + 1) * 5 div 7) = (7::int)"
    by code_simp
  note e1 = expected_trading_days_widening [OF p15 p19 p15 p25 o1 o2]
  note e2 = expected_trading_days_widening [OF p15 p25 p15 p25 o1 order_refl]
  from e1 e2 o3 o4 v1 v2 show ?thesis by simp
qed


section \<open>The TTL policy\<close>

lemma calculate_ttl_age:
  assumes "valid_time (now w)" and "strptime date_str = Some d"
  shows "calculate_ttl w date_str =
           py_int (time_time w)
             + (if 7 < toordinal (now w) - toordinal d then TTL_HISTORICAL else TTL_CURRENT)"
proof -
  have "timedelta_days (now w) d = toordinal (now w) - toordinal d"
    using assms strptime_midnight timedelta_days_midnight by blast
  then show ?thesis using assms(2) by (simp add: calculate_ttl_def)
qed

text \<open>
  C2. The expiry instant is the current time in whole seconds plus a horizon: 90 days when
  the date lies more than 7 calendar days before today, 1 day when it is 7 days old or
  younger (exactly 7 days is in the short tier), and 1 day when the string does not parse
  as a date.
\<close>

theorem calculate_ttl_tiers:
  assumes "valid_time (now w)"
  shows "(strptime date_str = None \<longrightarrow>
            calculate_ttl w date_str = py_int (time_time w) + 1 * 24 * 60 * 60)
       \<and> (\<forall>d. strptime date_str = Some d \<longrightarrow>
            (7 < toordinal (now w) - toordinal d \<longrightarrow>
               calculate_ttl w date_str = py_int (time_time w) + 90 * 24 * 60 * 60)
          \<and> (toordinal (now w) - toordinal d \<le> 7 \<longrightarrow>
               calculate_ttl w date_str = py_int (time_time w) + 1 * 24 * 60 * 60))"
  using calculate_ttl_age [OF assms]
  by (auto simp: calculate_ttl_def TTL_HISTORICAL_def TTL_CURRENT_def)

theorem calculate_ttl_tiers_witness:
  "(let w = \<lparr>now = \<lparr>year = 2024, month = 1, day = 22, hour = 10, minute = 30, second = 15,
                      microsecond = 250\<rparr>,
              time_time = 1705919415.25,
              history = (\<lambda>k t s e. Inl []),
              store_fault = (\<lambda>op. None)\<rparr>
    in calculate_ttl w ''2024-01-15'' = 1705919415 + 86400
     \<and> calculate_ttl w ''2024-01-14'' = 1705919415 + 7776000
     \<and> calculate_ttl w ''2024-01-22'' = 1705919415 + 86400
     \<and> calculate_ttl w ''15/01/2024'' = 1705919415 + 86400)"
proof -
  let ?now = "\<lparr>year = 2024, month = 1, day = 22, hour = 10, minute = 30, second = 15,
                 microsecond = 250\<rparr>"
  let ?w = "\<lparr>now = ?now, time_time = 1705919415.25, history = (\<lambda>k t s e. Inl []),
             store_fault = (\<lambda>op. None)\<rparr>"
  let ?d = "\<lambda>n. \<lparr>year = 2024, month = 1, day = n, hour = 0, minute = 0, second = 0,
                   microsecond = 0\<rparr>"
  have v: "valid_time (now ?w)" by (simp add: valid_time_def)
  have t: "py_int (time_time ?w) = 1705919415" by (simp add: py_int_def)
  have p15: "strptime ''2024-01-15'' = Some (?d 15)" by code_simp
  have p14: "strptime ''2024-01-14'' = Some (?d 14)" by code_simp
  have p22: "strptime ''2024-01-22'' = Some (?d 22)" by code_simp
  have pbad: "strptime ''15/01/2024'' = None" by code_simp
  have a15: "toordinal (now ?w) - toordinal (?d 15) = 7" by code_simp
  have a14: "toordinal (now ?w) - toordinal (?d 14) = 8" by code_simp
  have a22: "toordinal (now ?w) - toordinal (?d 22) = 0" by code_simp
  note T = calculate_ttl_tiers [OF v]
  have "calculate_ttl ?w ''2024-01-15'' = 1705919415 + 86400"
    using T [of "''2024-01-15''"] p15 a15 t by simp
  moreover have "calculate_ttl ?w ''2024-01-14'' = 1705919415 + 7776000"
    using T [of "''2024-01-14''"] p14 a14 t by simp
  moreover have "calculate_ttl ?w ''2024-01-22'' = 1705919415 + 86400"
    using T [of "''2024-01-22''"] p22 a22 t by simp
  moreover have "calculate_ttl ?w ''15/01/2024'' = 1705919415 + 86400"
    using T [of "''15/01/2024''"] pbad t by simp
  ultimately show ?thesis unfolding Let_def by blast
qed


section \<open>Normalisation of the provider's rows\<close>










section \<open>The single-symbol pipeline\<close>

lemma fetch_attempt_error:
  "fetch_attempt w tk s e k = Inl x \<Longrightarrow> is_api_error x"
  by (auto simp: fetch_attempt_def is_api_error_def split: sum.splits if_splits)

lemma fetch_attempt_frame:
  "fetch_attempt w tk s e k = Inr df \<Longrightarrow> df \<noteq> []"
  by (auto simp: fetch_attempt_def split: sum.splits if_splits)

lemma retry_with_backoff_error:
  assumes "\<And>k x. func k = Inl x \<Longrightarrow> is_api_error x"
      and "\<And>e. last_error = Some e \<Longrightarrow> is_api_error e"
      and "retry_with_backoff func attempt left last_error = Inl x"
  shows "is_api_error x"
  using assms(2,3)
proof (induction left arbitrary: attempt last_error)
  case 0
  then show ?case by (cases last_error) (auto simp: is_api_error_def)
next
  case (Suc left)
  show ?case
  proof (cases "func attempt")
    case (Inr v)
    with Suc.prems(2) show ?thesis by simp
  next
    case (Inl e)
    then have e: "is_api_error e" by (rule assms(1))
    then obtain m c where mc: "e = APIError m c" by (cases e) (auto simp: is_api_error_def)
    show ?thesis
    proof (cases "c \<noteq> 0 \<and> 400 \<le> c \<and> c < 500 \<and> c \<noteq> 429")
      case True
      with Suc.prems(2) Inl mc e show ?thesis by auto
    next
      case False
      with Suc.prems(2) Inl mc
      have "retry_with_backoff func (Suc attempt) left (Some e) = Inl x" by auto
      with e show ?thesis using Suc.IH [of "Some e" "Suc attempt"] by auto
    qed
  qed
qed

lemma retry_with_backoff_value:
  "retry_with_backoff func attempt left last_error = Inr v \<Longrightarrow> \<exists>k. func k = Inr v"
proof (induction left arbitrary: attempt last_error)
  case 0
  then show ?case by simp
next
  case (Suc left)
  then show ?case
    by (cases "func attempt") (auto split: py_exception.splits if_splits)
qed

lemma fetch_stock_prices_error:
  assumes "fetch_stock_prices w tk s e = Inl x"
  shows "is_api_error x"
proof (rule retry_with_backoff_error)
  show "retry_with_backoff (fetch_attempt w tk s e) 0 (MAX_RETRIES + 1) None = Inl x"
    using assms by (simp only: fetch_stock_prices_def)
  show "is_api_error y" if "fetch_attempt w tk s e k = Inl y" for k y
    using that by (rule fetch_attempt_error)
  show "is_api_error y" if "None = Some y" for y
    using that by simp
qed

lemma fetch_stock_prices_frame:
  assumes "fetch_stock_prices w tk s e = Inr df"
  shows "df \<noteq> []"
proof -
  have "retry_with_backoff (fetch_attempt w tk s e) 0 (MAX_RETRIES + 1) None = Inr df"
    using assms by (simp only: fetch_stock_prices_def)
  then obtain k where "fetch_attempt w tk s e k = Inr df"
    by (blast dest: retry_with_backoff_value)
  then show ?thesis by (rule fetch_attempt_frame)
qed

lemma transform_nonempty:
  "df \<noteq> [] \<Longrightarrow> transform_history_to_tiingo df tk \<noteq> []"
  by (simp add: transform_history_to_tiingo_def)

lemma cache_check_parsed:
  assumes "query_stocks_by_date_range w (table st) tk start_date eff = Inr cached_data"
      and "strptime start_date = Some start" and "strptime eff = Some end"
  shows "cache_check w st tk start_date eff =
     (let rate = cache_hit_rate (length cached_data)
                   (expected_trading_days (timedelta_days end start + 1))
      in if 0.8 < rate \<and> cached_data \<noteq> []
         then (Inr \<lparr>data = map cached_record (sort_key date cached_data), cached = True,
                   cacheHitRate = rate\<rparr>, st)
         else (case fetch_stock_prices w tk start_date eff of
                 Inl e \<Rightarrow> (Inl e, st\<lparr>fetch_log := fetch_log st @ [tk]\<rparr>)
               | Inr df \<Rightarrow>
                   (Inr \<lparr>data = transform_history_to_tiingo df tk, cached = False,
                         cacheHitRate = rate\<rparr>,
                    st\<lparr>fetch_log := fetch_log st @ [tk],
                       table := snd (batch_put_stocks w
                                  (cache_items_of tk (transform_history_to_tiingo df tk))
                                  (table st))\<rparr>)))"
  using assms
  by (auto simp: cache_check_def upstream_fetch_def Let_def transform_nonempty
           dest: fetch_stock_prices_frame split: sum.splits)

lemma handle_prices_request_cache_check:
  "handle_prices_request w st tk start_date end_date =
     (case cache_check w st tk start_date (effective_end w end_date) of
        (Inr r, st1) \<Rightarrow> (Inr r, st1)
      | (Inl (APIError m c), st1) \<Rightarrow> (Inl (APIError m c), st1)
      | (Inl e, st1) \<Rightarrow>
          (case fetch_stock_prices w tk start_date (effective_end w end_date) of
             Inl e' \<Rightarrow> (Inl e', st1\<lparr>fetch_log := fetch_log st1 @ [tk]\<rparr>)
           | Inr df \<Rightarrow>
               (Inr \<lparr>data = transform_history_to_tiingo df tk, cached = False,
                     cacheHitRate = 0\<rparr>, st1\<lparr>fetch_log := fetch_log st1 @ [tk]\<rparr>)))"
  by (auto simp: handle_prices_request_def upstream_fetch_def Let_def
           split: option.splits prod.splits sum.splits py_exception.splits)


lemma coverage_ratio:
  assumes "strptime start_date = Some start" and "strptime eff = Some end"
      and "toordinal start \<le> toordinal end"
  shows "cache_hit_rate n (expected_trading_days (timedelta_days end start + 1))
           = real n / real_of_int (max 1 ((toordinal end - toordinal start + 1) * 5 div 7))"
proof -
  have "timedelta_days end start = toordinal end - toordinal start"
    using assms(1,2) strptime_midnight timedelta_days_midnight by blast
  then have "expected_trading_days (timedelta_days end start + 1)
               = max 1 ((toordinal end - toordinal start + 1) * 5 div 7)"
    using assms(3) by (simp add: expected_trading_days_floor)
  moreover have "0 < max 1 ((toordinal end - toordinal start + 1) * 5 div 7)"
    by (rule less_le_trans [OF zero_less_one max.cobounded1])
  ultimately show ?thesis by (simp only: cache_hit_rate_def if_True)
qed

lemma fetch_stock_prices_first:
  assumes "history w 0 tk s e = Inr df" and "df \<noteq> []"
  shows "fetch_stock_prices w tk s e = Inr df"
proof -
  have "fetch_attempt w tk s e 0 = Inr df"
    using assms by (simp add: fetch_attempt_def)
  then have "retry_with_backoff (fetch_attempt w tk s e) 0 (Suc MAX_RETRIES) None = Inr df"
    by simp
  then show ?thesis by (simp only: fetch_stock_prices_def Suc_eq_plus1)
qed

lemma fetch_stock_prices_not_found:
  assumes "history w 0 tk s e = Inr []"
  shows "fetch_stock_prices w tk s e
           = Inl (APIError (''Ticker '' @ [CHR 0x27] @ tk @ [CHR 0x27]
                              @ '' not found or no data available'') 404)"
proof -
  have "fetch_attempt w tk s e 0
          = Inl (APIError (''Ticker '' @ [CHR 0x27] @ tk @ [CHR 0x27]
                             @ '' not found or no data available'') 404)"
    using assms by (simp add: fetch_attempt_def)
  then have "retry_with_backoff (fetch_attempt w tk s e) 0 (Suc MAX_RETRIES) None
               = Inl (APIError (''Ticker '' @ [CHR 0x27] @ tk @ [CHR 0x27]
                                  @ '' not found or no data available'') 404)"
    by simp
  then show ?thesis by (simp only: fetch_stock_prices_def Suc_eq_plus1)
qed

lemma batch_writer_first_flush_fails:
  assumes "store_fault w (OpBatchWrite k) = Some m"
  shows "buf @ its \<noteq> [] \<Longrightarrow> length buf < 25
           \<Longrightarrow> batch_writer w k buf its tbl = (Inl (StoreError m), tbl)"
proof (induction its arbitrary: buf)
  case Nil
  then show ?case using assms by (simp add: batch_flush_def)
next
  case (Cons it its)
  show ?case
  proof (cases "25 \<le> length (buf @ [it])")
    case True
    then show ?thesis using assms by (simp add: batch_flush_def Let_def)
  next
    case False
    then have "batch_writer w k (buf @ [it]) its tbl = (Inl (StoreError m), tbl)"
      by (intro Cons.IH) auto
    with False show ?thesis by (simp add: Let_def)
  qed
qed

lemma batch_put_stocks_first_flush_fails:
  assumes "store_fault w (OpBatchWrite 0) = Some m" and "items \<noteq> []"
  shows "batch_put_stocks w items tbl = (Inl (StoreError m), tbl)"
  using batch_writer_first_flush_fails [OF assms(1), of "[]" "map (make_cache_item w) items" tbl]
        assms(2)
  by (simp add: batch_put_stocks_def Let_def)


lemma cache_hit_rate_none: "cache_hit_rate 0 expected = 0"
  by (simp add: cache_hit_rate_def)

text \<open>
  C1. For a request whose dates parse with start no later than end and whose cache query
  returns \<open>cached_data\<close>, the expected count is \<open>max 1 (days * 5 div 7)\<close> with
  \<open>days = (end - start) + 1\<close>, the ratio is the number of returned records over the expected
  count, and the request is served from the cache exactly when the ratio exceeds 0.8 and
  at least one record was returned; with no record it never is. The ratio is what the
  response reports as its hit rate.
\<close>

theorem coverage_decision:
  assumes "query_stocks_by_date_range w (table st) tk start_date (effective_end w end_date)
             = Inr cached_data"
      and "strptime start_date = Some start"
      and "strptime (effective_end w end_date) = Some end"
      and "toordinal start \<le> toordinal end"
  shows "(let expected = max 1 ((toordinal end - toordinal start + 1) * 5 div 7);
              ratio = real (length cached_data) / real_of_int expected;
              res = handle_prices_request w st tk start_date end_date
          in ((\<exists>r. fst res = Inr r \<and> cached r) \<longleftrightarrow> (0.8 < ratio \<and> 0 < length cached_data))
           \<and> (0.8 < ratio \<and> 0 < length cached_data \<longrightarrow>
                res = (Inr \<lparr>data = map cached_record (sort_key date cached_data),
                             cached = True, cacheHitRate = ratio\<rparr>, st))
           \<and> (length cached_data = 0 \<longrightarrow> \<not> (\<exists>r. fst res = Inr r \<and> cached r))
           \<and> (\<forall>r. fst res = Inr r \<longrightarrow> cacheHitRate r = ratio))"
proof -
  note cc = cache_check_parsed [OF assms(1,2,3)]
  note rt = coverage_ratio [OF assms(2,3,4), of "length cached_data"]
  show ?thesis
    unfolding handle_prices_request_cache_check cc rt Let_def
    by (cases "fetch_stock_prices w tk start_date (effective_end w end_date)")
       (auto dest: fetch_stock_prices_error simp: is_api_error_def split: py_exception.splits)
qed

theorem coverage_decision_witness:
  "(\<exists>r. fst (handle_prices_request (example_world (\<lambda>op. None))
                \<lparr>table = example_table, fetch_log = []\<rparr>
                ''aapl'' ''2024-01-15'' (Some ''2024-01-19'')) = Inr r
        \<and> cached r \<and> cacheHitRate r = 5 / 3)
   \<and> \<not> (\<exists>r. fst (handle_prices_request (example_world (\<lambda>op. None))
                    \<lparr>table = [], fetch_log = []\<rparr>
                    ''aapl'' ''2024-01-15'' (Some ''2024-01-19'')) = Inr r
            \<and> cached r)"
proof -
  let ?w = "example_world (\<lambda>op. None)"
  let ?d = "\<lambda>n. \<lparr>year = 2024, month = 1, day = n, hour = 0, minute = 0, second = 0,
                   microsecond = 0\<rparr>"
  let ?cd = "[example_item ''AAPL'' ''2024-01-15'' 150, example_item ''AAPL'' ''2024-01-16'' 151,
              example_item ''AAPL'' ''2024-01-17'' 152, example_item ''AAPL'' ''2024-01-18'' 153,
              example_item ''AAPL'' ''2024-01-19'' 154]"
  have e: "effective_end ?w (Some ''2024-01-19'') = ''2024-01-19''"
    by (simp add: effective_end_def)
  have u: "upper ''aapl'' = ''AAPL''" by code_simp
  have f: "store_fault ?w OpQuery = None" by (simp add: example_world_def)
  have tq: "table_query example_table ''AAPL'' ''2024-01-15'' ''2024-01-19'' = ?cd"
    by (simp add: table_query_def example_table_def example_item_def)
  have q1: "query_stocks_by_date_range ?w (table \<lparr>table = example_table, fetch_log = []\<rparr>)
              ''aapl'' ''2024-01-15'' (effective_end ?w (Some ''2024-01-19'')) = Inr ?cd"
    unfolding e by (simp add: query_stocks_by_date_range_def f u tq)
  have q0: "query_stocks_by_date_range ?w (table \<lparr>table = [], fetch_log = []\<rparr>)
              ''aapl'' ''2024-01-15'' (effective_end ?w (Some ''2024-01-19'')) = Inr []"
    unfolding e by (simp add: query_stocks_by_date_range_def f table_query_def)
  have ps: "strptime ''2024-01-15'' = Some (?d 15)" by code_simp
  have pe: "strptime (effective_end ?w (Some ''2024-01-19'')) = Some (?d 19)"
    unfolding e by code_simp
  have le: "toordinal (?d 15) \<le> toordinal (?d 19)" by code_simp
  have ex: "max 1 ((toordinal (?d 19) - toordinal (?d 15) + 1) * 5 div 7) = (3::int)"
    by code_simp
  note hit = coverage_decision [OF q1 ps pe le, unfolded Let_def ex]
  note miss = coverage_decision [OF q0 ps pe le, unfolded Let_def ex]
  have c: "(0.8::real) < real (length ?cd) / real_of_int 3 \<and> 0 < length ?cd" by simp
  have v: "real (length ?cd) / real_of_int 3 = 5 / 3" by simp
  from hit c obtain r where
    r: "fst (handle_prices_request ?w \<lparr>table = example_table, fetch_log = []\<rparr>
               ''aapl'' ''2024-01-15'' (Some ''2024-01-19'')) = Inr r" "cached r"
    by blast
  from hit r(1) have "cacheHitRate r = real (length ?cd) / real_of_int 3" by blast
  then have "cacheHitRate r = 5 / 3" by (simp only: v)
  with r have "\<exists>r. fst (handle_prices_request ?w \<lparr>table = example_table, fetch_log = []\<rparr>
                ''aapl'' ''2024-01-15'' (Some ''2024-01-19'')) = Inr r
        \<and> cached r \<and> cacheHitRate r = 5 / 3"
    by blast
  moreover have "length ([] :: cache_item list) = 0" by simp
  with miss have "\<not> (\<exists>r. fst (handle_prices_request ?w \<lparr>table = [], fetch_log = []\<rparr>
                    ''aapl'' ''2024-01-15'' (Some ''2024-01-19'')) = Inr r \<and> cached r)"
    by blast
  ultimately show ?thesis by blast
qed


text \<open>
  C3. When the coverage is insufficient and the upstream fetch succeeds, a batch write that
  raises leaves the request successful: the caller receives the freshly fetched, normalised
  records with \<open>cached = False\<close>.
\<close>

theorem write_failure_keeps_read:
  assumes "query_stocks_by_date_range w (table st) tk start_date (effective_end w end_date)
             = Inr cached_data"
      and "strptime start_date = Some start"
      and "strptime (effective_end w end_date) = Some end"
      and "\<not> (0.8 < cache_hit_rate (length cached_data)
                       (expected_trading_days (timedelta_days end start + 1))
              \<and> cached_data \<noteq> [])"
      and "fetch_stock_prices w tk start_date (effective_end w end_date) = Inr df"
      and "fst (batch_put_stocks w (cache_items_of tk (transform_history_to_tiingo df tk))
                  (table st)) = Inl err"
  shows "fst (handle_prices_request w st tk start_date end_date)
           = Inr \<lparr>data = transform_history_to_tiingo df tk, cached = False,
                   cacheHitRate = cache_hit_rate (length cached_data)
                                    (expected_trading_days (timedelta_days end start + 1))\<rparr>"
  using assms(4,5)
  unfolding handle_prices_request_cache_check cache_check_parsed [OF assms(1,2,3)] Let_def
  by auto

theorem write_failure_keeps_read_witness:
  "fst (handle_prices_request
          (example_world (\<lambda>op. if op = OpBatchWrite 0 then Some ''timeout'' else None))
          \<lparr>table = [], fetch_log = []\<rparr> ''AAPL'' ''2024-01-15'' (Some ''2024-01-19''))
     = Inr \<lparr>data = transform_history_to_tiingo [example_row 150 154 153 None] ''AAPL'',
            cached = False, cacheHitRate = 0\<rparr>"
proof -
  let ?w = "example_world (\<lambda>op. if op = OpBatchWrite 0 then Some ''timeout'' else None)"
  let ?st = "\<lparr>table = [], fetch_log = []\<rparr>"
  let ?d = "\<lambda>n. \<lparr>year = 2024, month = 1, day = n, hour = 0, minute = 0, second = 0,
                   microsecond = 0\<rparr>"
  let ?df = "[example_row 150 154 153 None]"
  have e: "effective_end ?w (Some ''2024-01-19'') = ''2024-01-19''"
    by (simp add: effective_end_def)
  have fq: "store_fault ?w OpQuery = None" by (simp add: example_world_def)
  have fw: "store_fault ?w (OpBatchWrite 0) = Some ''timeout''" by (simp add: example_world_def)
  have q: "query_stocks_by_date_range ?w (table ?st) ''AAPL'' ''2024-01-15''
             (effective_end ?w (Some ''2024-01-19'')) = Inr []"
    by (simp add: query_stocks_by_date_range_def fq table_query_def)
  have ps: "strptime ''2024-01-15'' = Some (?d 15)" by code_simp
  have pe: "strptime (effective_end ?w (Some ''2024-01-19'')) = Some (?d 19)"
    unfolding e by code_simp
  have ins: "\<not> (0.8 < cache_hit_rate (length ([] :: cache_item list))
                        (expected_trading_days (timedelta_days (?d 19) (?d 15) + 1))
               \<and> ([] :: cache_item list) \<noteq> [])"
    by simp
  have h: "history ?w 0 ''AAPL'' ''2024-01-15'' ''2024-01-19'' = Inr ?df"
    by (simp add: example_world_def)
  have fetch: "fetch_stock_prices ?w ''AAPL'' ''2024-01-15''
                 (effective_end ?w (Some ''2024-01-19'')) = Inr ?df"
    unfolding e by (rule fetch_stock_prices_first [OF h]) simp
  have ne: "cache_items_of ''AAPL'' (transform_history_to_tiingo ?df ''AAPL'') \<noteq> []"
    by (simp add: cache_items_of_def transform_history_to_tiingo_def)
  have wr: "fst (batch_put_stocks ?w
                   (cache_items_of ''AAPL'' (transform_history_to_tiingo ?df ''AAPL''))
                   (table ?st)) = Inl (StoreError ''timeout'')"
    by (simp only: batch_put_stocks_first_flush_fails [OF fw ne] fst_conv)
  show ?thesis
    using write_failure_keeps_read [OF q ps pe ins fetch wr]
    by (simp only: list.size cache_hit_rate_none)
qed

text \<open>
  C4. When the store fails during the coverage query, the repository raises (it does not
  return an empty list), the handler falls back to the upstream fetch and returns the
  fetched records with \<open>cached = False\<close>, and whatever the request returns, it is never the
  store's error.
\<close>

theorem store_read_failure_falls_back:
  assumes "store_fault w OpQuery = Some m"
  shows "query_stocks_by_date_range w (table st) tk start_date (effective_end w end_date)
           = Inl (StoreError m)
       \<and> handle_prices_request w st tk start_date end_date =
           (case fetch_stock_prices w tk start_date (effective_end w end_date) of
              Inl e \<Rightarrow> (Inl e, st\<lparr>fetch_log := fetch_log st @ [tk]\<rparr>)
            | Inr df \<Rightarrow>
                (Inr \<lparr>data = transform_history_to_tiingo df tk, cached = False,
                      cacheHitRate = 0\<rparr>, st\<lparr>fetch_log := fetch_log st @ [tk]\<rparr>))
       \<and> (\<forall>m'. fst (handle_prices_request w st tk start_date end_date) \<noteq> Inl (StoreError m'))"
proof -
  have q: "query_stocks_by_date_range w (table st) tk start_date (effective_end w end_date)
           = Inl (StoreError m)"
    using assms by (simp add: query_stocks_by_date_range_def)
  then have cc: "cache_check w st tk start_date (effective_end w end_date) = (Inl (StoreError m), st)"
    by (simp add: cache_check_def)
  have h: "handle_prices_request w st tk start_date end_date =
           (case fetch_stock_prices w tk start_date (effective_end w end_date) of
              Inl e \<Rightarrow> (Inl e, st\<lparr>fetch_log := fetch_log st @ [tk]\<rparr>)
            | Inr df \<Rightarrow>
                (Inr \<lparr>data = transform_history_to_tiingo df tk, cached = False,
                      cacheHitRate = 0\<rparr>, st\<lparr>fetch_log := fetch_log st @ [tk]\<rparr>))"
    unfolding handle_prices_request_cache_check cc by simp
  have "fst (handle_prices_request w st tk start_date end_date) \<noteq> Inl (StoreError m')" for m'
    unfolding h
    by (cases "fetch_stock_prices w tk start_date (effective_end w end_date)")
       (auto dest: fetch_stock_prices_error simp: is_api_error_def)
  with q h show ?thesis by blast
qed


theorem store_read_failure_falls_back_witness:
  "handle_prices_request
     (example_world (\<lambda>op. if op = OpQuery then Some ''connection reset'' else None))
     \<lparr>table = example_table, fetch_log = []\<rparr> ''AAPL'' ''2024-01-15'' (Some ''2024-01-19'')
     = (Inr \<lparr>data = transform_history_to_tiingo [example_row 150 154 153 None] ''AAPL'',
             cached = False, cacheHitRate = 0\<rparr>,
        \<lparr>table = example_table, fetch_log = [''AAPL'']\<rparr>)
   \<and> fst (handle_prices_request
            (example_world (\<lambda>op. if op = OpQuery then Some ''connection reset'' else None))
            \<lparr>table = example_table, fetch_log = []\<rparr> ''MSFT'' ''2024-01-15''
            (Some ''2024-01-19''))
     = Inl (APIError (''Ticker '' @ [CHR 0x27] @ ''MSFT'' @ [CHR 0x27]
                        @ '' not found or no data available'') 404)"
proof -
  let ?w = "example_world (\<lambda>op. if op = OpQuery then Some ''connection reset'' else None)"
  let ?st = "\<lparr>table = example_table, fetch_log = []\<rparr>"
  have e: "effective_end ?w (Some ''2024-01-19'') = ''2024-01-19''"
    by (simp add: effective_end_def)
  have fq: "store_fault ?w OpQuery = Some ''connection reset''" by (simp add: example_world_def)
  have h1: "history ?w 0 ''AAPL'' ''2024-01-15'' ''2024-01-19''
              = Inr [example_row 150 154 153 None]"
    by (simp add: example_world_def)
  have h2: "history ?w 0 ''MSFT'' ''2024-01-15'' ''2024-01-19'' = Inr []"
    by (simp add: example_world_def)
  have f1: "fetch_stock_prices ?w ''AAPL'' ''2024-01-15''
              (effective_end ?w (Some ''2024-01-19'')) = Inr [example_row 150 154 153 None]"
    unfolding e by (rule fetch_stock_prices_first [OF h1]) simp
  have f2: "fetch_stock_prices ?w ''MSFT'' ''2024-01-15''
              (effective_end ?w (Some ''2024-01-19''))
              = Inl (APIError (''Ticker '' @ [CHR 0x27] @ ''MSFT'' @ [CHR 0x27]
                                 @ '' not found or no data available'') 404)"
    unfolding e by (rule fetch_stock_prices_not_found [OF h2])
  have u: "?st\<lparr>fetch_log := fetch_log ?st @ [''AAPL'']\<rparr>
             = \<lparr>table = example_table, fetch_log = [''AAPL'']\<rparr>"
    by simp
  note T1 = store_read_failure_falls_back
              [OF fq, of ?st "''AAPL''" "''2024-01-15''" "Some ''2024-01-19''"]
  note T2 = store_read_failure_falls_back
              [OF fq, of ?st "''MSFT''" "''2024-01-15''" "Some ''2024-01-19''"]
  have "handle_prices_request ?w ?st ''AAPL'' ''2024-01-15'' (Some ''2024-01-19'')
     = (Inr \<lparr>data = transform_history_to_tiingo [example_row 150 154 153 None] ''AAPL'',
             cached = False, cacheHitRate = 0\<rparr>,
        \<lparr>table = example_table, fetch_log = [''AAPL'']\<rparr>)"
    using T1 by (simp only: f1 sum.case u)
  moreover have "fst (handle_prices_request ?w ?st ''MSFT'' ''2024-01-15'' (Some ''2024-01-19''))
     = Inl (APIError (''Ticker '' @ [CHR 0x27] @ ''MSFT'' @ [CHR 0x27]
                        @ '' not found or no data available'') 404)"
    using T2 by (simp only: f2 sum.case fst_conv)
  ultimately show ?thesis by (rule conjI)
qed


section \<open>The record store\<close>

lemma item_key_make_cache_item:
  "item_key (make_cache_item w item) = (upper (ticker item), date item)"
  by (simp add: item_key_def make_cache_item_def)

lemma table_keys_put_item:
  "table_keys (table_put_item it tbl) = insert (item_key it) (table_keys tbl)"
  by (auto simp: table_keys_def table_put_item_def)

lemma table_ok_put_item:
  "table_ok tbl \<Longrightarrow> table_ok (table_put_item it tbl)"
  by (auto simp: table_ok_def table_put_item_def distinct_map_filter)

lemma records_with_key_put_item:
  "records_with_key (item_key it) (table_put_item it tbl) = [it]"
  by (simp add: records_with_key_def table_put_item_def)

lemma table_ok_at_most_one:
  "table_ok tbl \<Longrightarrow> length (records_with_key k tbl) \<le> 1"
  unfolding table_ok_def records_with_key_def
  by (induction tbl) (auto simp: image_iff filter_empty_conv)

lemma table_ok_exactly_one:
  "table_ok tbl \<Longrightarrow> k \<in> table_keys tbl \<Longrightarrow> length (records_with_key k tbl) = 1"
  unfolding table_ok_def records_with_key_def table_keys_def
  by (induction tbl) (auto simp: image_iff filter_empty_conv)

lemma table_ok_length:
  "table_ok tbl \<Longrightarrow> length tbl = card (table_keys tbl)"
  unfolding table_ok_def table_keys_def
  by (metis distinct_card length_map)

lemma table_keys_Cons: "table_keys (it # buf) = insert (item_key it) (table_keys buf)"
  by (simp add: table_keys_def)

lemma foldl_put_item_keys:
  "table_keys (foldl (\<lambda>t it. table_put_item it t) tbl buf) = table_keys tbl \<union> table_keys buf"
proof (induction buf arbitrary: tbl)
  case Nil
  show ?case by (simp add: table_keys_def)
next
  case (Cons it buf)
  have "table_keys (foldl (\<lambda>t it. table_put_item it t) (table_put_item it tbl) buf)
          = insert (item_key it) (table_keys tbl) \<union> table_keys buf"
    by (simp only: Cons.IH table_keys_put_item)
  then show ?case by (simp add: table_keys_Cons)
qed

lemma foldl_put_item_ok:
  "table_ok tbl \<Longrightarrow> table_ok (foldl (\<lambda>t it. table_put_item it t) tbl buf)"
  by (induction buf arbitrary: tbl) (simp_all add: table_ok_put_item)

lemma foldl_put_item:
  "table_keys (foldl (\<lambda>t it. table_put_item it t) tbl buf) = table_keys tbl \<union> table_keys buf
   \<and> (table_ok tbl \<longrightarrow> table_ok (foldl (\<lambda>t it. table_put_item it t) tbl buf))"
  using foldl_put_item_keys foldl_put_item_ok by blast

lemma batch_flush_ok:
  assumes "batch_flush w k buf tbl = Inr tbl'"
  shows "table_keys tbl' = table_keys tbl \<union> table_keys buf \<and> (table_ok tbl \<longrightarrow> table_ok tbl')"
  using assms foldl_put_item [of tbl buf]
  by (auto simp: batch_flush_def split: option.splits if_splits)

lemma batch_writer_ok:
  "batch_writer w k buf its tbl = (r, tbl') \<Longrightarrow>
     (table_ok tbl \<longrightarrow> table_ok tbl')
   \<and> (r = Inr () \<longrightarrow> table_keys tbl' = table_keys tbl \<union> table_keys buf \<union> table_keys its)"
proof (induction its arbitrary: k buf tbl)
  case Nil
  then show ?case
    by (auto simp: table_keys_def split: if_splits sum.splits dest!: batch_flush_ok)
next
  case (Cons it its)
  show ?case
  proof (cases "25 \<le> length (buf @ [it])")
    case True
    show ?thesis
    proof (cases "batch_flush w k (buf @ [it]) tbl")
      case (Inl e)
      with True Cons.prems show ?thesis by (auto simp: Let_def)
    next
      case (Inr t1)
      with True Cons.prems have "batch_writer w (Suc k) [] its t1 = (r, tbl')"
        by (simp add: Let_def)
      from Cons.IH [OF this] batch_flush_ok [OF Inr] show ?thesis
        by (auto simp: table_keys_def)
    qed
  next
    case False
    with Cons.prems have "batch_writer w k (buf @ [it]) its tbl = (r, tbl')"
      by (simp add: Let_def)
    from Cons.IH [OF this] show ?thesis by (auto simp: table_keys_def)
  qed
qed

lemma batch_put_stocks_ok:
  assumes "batch_put_stocks w items tbl = (r, tbl')"
  shows "(table_ok tbl \<longrightarrow> table_ok tbl')
       \<and> (r = Inr () \<longrightarrow>
            table_keys tbl' = table_keys tbl \<union> (\<lambda>it. (upper (ticker it), date it)) ` set items)"
proof (cases "items = []")
  case True
  with assms show ?thesis by (auto simp: batch_put_stocks_def)
next
  case False
  with assms have "batch_writer w 0 [] (map (make_cache_item w) items) tbl = (r, tbl')"
    by (simp add: batch_put_stocks_def Let_def)
  from batch_writer_ok [OF this] show ?thesis
    by (auto simp: table_keys_def item_key_make_cache_item image_iff)
qed


lemma put_stock_cases:
  "put_stock w item tbl = (Inr (), table_put_item (make_cache_item w item) tbl)
   \<or> (\<exists>m. put_stock w item tbl = (Inl (StoreError m), tbl))"
  by (cases "store_fault w OpPutItem") (simp_all add: put_stock_def Let_def)

lemma put_stock_ok: "table_ok tbl \<Longrightarrow> table_ok (snd (put_stock w item tbl))"
  using put_stock_cases [of w item tbl] by (auto simp: table_ok_put_item)

lemma put_stock_success:
  "fst (put_stock w item tbl) = Inr () \<Longrightarrow>
     snd (put_stock w item tbl) = table_put_item (make_cache_item w item) tbl"
  using put_stock_cases [of w item tbl] by auto

lemma put_stock_twice:
  assumes "table_ok tbl"
      and "fst (put_stock w item tbl) = Inr ()"
      and "fst (put_stock w' item (snd (put_stock w item tbl))) = Inr ()"
  shows "records_with_key (upper (ticker item), date item)
           (snd (put_stock w' item (snd (put_stock w item tbl)))) = [make_cache_item w' item]
       \<and> length (snd (put_stock w' item (snd (put_stock w item tbl))))
           = length (snd (put_stock w item tbl))"
proof -
  let ?k = "(upper (ticker item), date item)"
  let ?t1 = "table_put_item (make_cache_item w item) tbl"
  let ?t2 = "table_put_item (make_cache_item w' item) ?t1"
  have s1: "snd (put_stock w item tbl) = ?t1" using assms(2) by (rule put_stock_success)
  have s2: "snd (put_stock w' item ?t1) = ?t2"
    using assms(3) unfolding s1 by (rule put_stock_success)
  have ok1: "table_ok ?t1" using assms(1) by (rule table_ok_put_item)
  then have ok2: "table_ok ?t2" by (rule table_ok_put_item)
  have "table_keys ?t2 = table_keys ?t1"
    by (auto simp: table_keys_put_item item_key_make_cache_item)
  then have "length ?t2 = length ?t1"
    using ok1 ok2 by (simp add: table_ok_length)
  moreover have "records_with_key ?k ?t2 = [make_cache_item w' item]"
    using records_with_key_put_item [of "make_cache_item w' item" ?t1]
    by (simp only: item_key_make_cache_item)
  ultimately show ?thesis by (simp only: s1 s2)
qed

lemma batch_put_stocks_twice:
  assumes "table_ok tbl"
      and "fst (batch_put_stocks w items tbl) = Inr ()"
      and "fst (batch_put_stocks w' items (snd (batch_put_stocks w items tbl))) = Inr ()"
  shows "(\<forall>it \<in> set items.
            length (records_with_key (upper (ticker it), date it)
                      (snd (batch_put_stocks w' items (snd (batch_put_stocks w items tbl))))) = 1)
       \<and> length (snd (batch_put_stocks w' items (snd (batch_put_stocks w items tbl))))
           = length (snd (batch_put_stocks w items tbl))"
proof -
  let ?K = "(\<lambda>it. (upper (ticker it), date it)) ` set items"
  obtain t1 where b1: "batch_put_stocks w items tbl = (Inr (), t1)"
    using assms(2) by (cases "batch_put_stocks w items tbl") auto
  obtain t2 where b2: "batch_put_stocks w' items t1 = (Inr (), t2)"
    using assms(3) unfolding b1 by (cases "batch_put_stocks w' items t1") auto
  from batch_put_stocks_ok [OF b1] assms(1)
  have ok1: "table_ok t1" and k1: "table_keys t1 = table_keys tbl \<union> ?K" by blast+
  from batch_put_stocks_ok [OF b2] ok1
  have ok2: "table_ok t2" and k2: "table_keys t2 = table_keys t1 \<union> ?K" by blast+
  have same: "table_keys t2 = table_keys t1" unfolding k2 k1 by blast
  then have "length t2 = length t1" using ok1 ok2 by (simp add: table_ok_length)
  moreover have "length (records_with_key (upper (ticker it), date it) t2) = 1"
    if "it \<in> set items" for it
  proof (rule table_ok_exactly_one [OF ok2])
    show "(upper (ticker it), date it) \<in> table_keys t2" unfolding k2 using that by blast
  qed
  ultimately show ?thesis by (simp add: b1 b2)
qed

lemma put_stock_no_fault:
  "store_fault w OpPutItem = None \<Longrightarrow> fst (put_stock w item tbl) = Inr ()"
  by (simp add: put_stock_def Let_def)

lemma batch_put_stocks_single:
  "store_fault w (OpBatchWrite 0) = None \<Longrightarrow> fst (batch_put_stocks w [item] tbl) = Inr ()"
  by (simp add: batch_put_stocks_def batch_flush_def Let_def)

text \<open>
  C8. A table that holds no key twice still holds none twice after \<open>put_stock\<close> and after
  \<open>batch_put_stocks\<close>, whether the write succeeds or fails; the key of a written record is
  the upper-cased ticker with the date. Writing the same item twice, by two single puts or
  by two batch puts, leaves exactly one record under its key and adds no record to the
  table; the record kept is the one of the second write, with the TTL computed then.
\<close>

theorem one_record_per_key:
  assumes "table_ok tbl"
  shows "(\<forall>k. length (records_with_key k (snd (put_stock w item tbl))) \<le> 1)
       \<and> (\<forall>k. length (records_with_key k (snd (batch_put_stocks w items tbl))) \<le> 1)
       \<and> (let tbl1 = snd (put_stock w item tbl);
               tbl2 = snd (put_stock w' item tbl1)
           in fst (put_stock w item tbl) = Inr () \<and> fst (put_stock w' item tbl1) = Inr () \<longrightarrow>
                records_with_key (upper (ticker item), date item) tbl2 = [make_cache_item w' item]
              \<and> length tbl2 = length tbl1)
       \<and> (let tbl1 = snd (batch_put_stocks w items tbl);
               tbl2 = snd (batch_put_stocks w' items tbl1)
           in fst (batch_put_stocks w items tbl) = Inr ()
                \<and> fst (batch_put_stocks w' items tbl1) = Inr () \<longrightarrow>
                (\<forall>it \<in> set items.
                   length (records_with_key (upper (ticker it), date it) tbl2) = 1)
              \<and> length tbl2 = length tbl1)"
proof -
  have "table_ok (snd (put_stock w item tbl))" using assms by (rule put_stock_ok)
  then have p1: "\<forall>k. length (records_with_key k (snd (put_stock w item tbl))) \<le> 1"
    by (blast intro: table_ok_at_most_one)
  have "table_ok (snd (batch_put_stocks w items tbl))"
    using batch_put_stocks_ok [OF surjective_pairing] assms by blast
  then have p2: "\<forall>k. length (records_with_key k (snd (batch_put_stocks w items tbl))) \<le> 1"
    by (blast intro: table_ok_at_most_one)
  note p3 = put_stock_twice [OF assms, of w item w']
  note p4 = batch_put_stocks_twice [OF assms, of w items w']
  show ?thesis unfolding Let_def using p1 p2 p3 p4 by blast
qed


theorem one_record_per_key_witness:
  "(let item = example_stock_item ''aapl'' ''2024-01-15'';
        w = example_world (\<lambda>op. None);
        w' = example_world_later (\<lambda>op. None);
        tbl1 = snd (put_stock w item []);
        tbl2 = snd (put_stock w' item tbl1);
        tbl3 = snd (batch_put_stocks w' [item] (snd (batch_put_stocks w [item] [])))
    in map ttl tbl1 = [1706005815]
     \<and> map ttl (records_with_key (''AAPL'', ''2024-01-15'') tbl2) = [1713781815]
     \<and> length tbl2 = 1
     \<and> length (records_with_key (''AAPL'', ''2024-01-15'') tbl3) = 1)"
proof -
  define item where "item = example_stock_item ''aapl'' ''2024-01-15''"
  define w where "w = example_world (\<lambda>op. None)"
  define w' where "w' = example_world_later (\<lambda>op. None)"
  let ?d = "\<lparr>year = 2024, month = 1, day = 15, hour = 0, minute = 0, second = 0,
              microsecond = 0\<rparr>"
  have ok0: "table_ok []" by (simp add: table_ok_def)
  have f: "store_fault w OpPutItem = None" "store_fault w' OpPutItem = None"
          "store_fault w (OpBatchWrite 0) = None" "store_fault w' (OpBatchWrite 0) = None"
    by (simp_all add: w_def w'_def example_world_def example_world_later_def)
  have it: "ticker item = ''aapl''" "date item = ''2024-01-15''"
    by (simp_all add: item_def example_stock_item_def)
  have u: "upper ''aapl'' = ''AAPL''" by code_simp
  have p: "strptime ''2024-01-15'' = Some ?d" by code_simp
  have v: "valid_time (now w)" "valid_time (now w')"
    by (simp_all add: w_def w'_def example_world_def example_world_later_def valid_time_def)
  have a: "toordinal (now w) - toordinal ?d = 7"
    unfolding w_def example_world_def by code_simp
  have a': "toordinal (now w') - toordinal ?d = 8"
    unfolding w'_def example_world_later_def example_world_def by code_simp
  have t: "py_int (time_time w) = 1705919415" "py_int (time_time w') = 1706005815"
    by (simp_all add: w_def w'_def example_world_def example_world_later_def py_int_def)
  have c: "calculate_ttl w ''2024-01-15'' = 1706005815"
    by (simp add: calculate_ttl_age [OF v(1) p] a t TTL_CURRENT_def)
  have c': "calculate_ttl w' ''2024-01-15'' = 1713781815"
    by (simp add: calculate_ttl_age [OF v(2) p] a' t TTL_HISTORICAL_def)
  have m: "ttl (make_cache_item w item) = 1706005815" "ttl (make_cache_item w' item) = 1713781815"
    by (simp_all add: make_cache_item_def it c c')
  note s1 = put_stock_no_fault [OF f(1), of item "[]"]
  note s2 = put_stock_no_fault [OF f(2), of item "snd (put_stock w item [])"]
  note b1 = batch_put_stocks_single [OF f(3), of item "[]"]
  note b2 = batch_put_stocks_single [OF f(4), of item "snd (batch_put_stocks w [item] [])"]
  note T = one_record_per_key [OF ok0, of w item "[item]" w', unfolded Let_def]
  have t1: "snd (put_stock w item []) = [make_cache_item w item]"
    by (simp add: put_stock_success [OF s1] table_put_item_def)
  from T s1 s2
  have r2: "records_with_key (upper (ticker item), date item)
              (snd (put_stock w' item (snd (put_stock w item [])))) = [make_cache_item w' item]"
   and l2: "length (snd (put_stock w' item (snd (put_stock w item []))))
              = length (snd (put_stock w item []))"
    by blast+
  have "item \<in> set [item]" by simp
  with T b1 b2
  have r3: "length (records_with_key (upper (ticker item), date item)
              (snd (batch_put_stocks w' [item] (snd (batch_put_stocks w [item] []))))) = 1"
    by blast
  have "map ttl (snd (put_stock w item [])) = [1706005815]"
    by (simp add: t1 m)
  moreover have "map ttl (records_with_key (''AAPL'', ''2024-01-15'')
                   (snd (put_stock w' item (snd (put_stock w item []))))) = [1713781815]"
    using r2 by (simp add: it u m)
  moreover have "length (snd (put_stock w' item (snd (put_stock w item [])))) = 1"
    using l2 by (simp add: t1)
  moreover have "length (records_with_key (''AAPL'', ''2024-01-15'')
                   (snd (batch_put_stocks w' [item] (snd (batch_put_stocks w [item] []))))) = 1"
    using r3 by (simp add: it u)
  ultimately show ?thesis
    unfolding Let_def item_def [symmetric] w_def [symmetric] w'_def [symmetric] by blast
qed


section \<open>The batch handler\<close>








































end
